theory Spec2Isabelle
  imports Main "HOL-Library.Monad_Syntax"
begin

section \<open>Python values used by \<^verbatim>\<open>wiki.py\<close>\<close>

text \<open>
  The values that \<^verbatim>\<open>response.json()\<close> returns: \<^verbatim>\<open>None\<close>, booleans, numbers, strings,
  lists and dicts. A dict is its list of items in insertion order (keys are strings, as in
  JSON); a lookup takes the first item with the key.
\<close>

datatype json =
    JNull
  | JBool bool
  | JNum int
  | JStr string
  | JArr "json list"
  | JObj "(string \<times> json) list"

text \<open>Python truthiness, as tested by \<^verbatim>\<open>if x:\<close> and \<^verbatim>\<open>not x\<close>.\<close>

fun truthy :: "json \<Rightarrow> bool" where
  "truthy JNull = False"
| "truthy (JBool b) = b"
| "truthy (JNum n) = (n \<noteq> 0)"
| "truthy (JStr s) = (s \<noteq> [])"
| "truthy (JArr xs) = (xs \<noteq> [])"
| "truthy (JObj kvs) = (kvs \<noteq> [])"

text \<open>
  The operations below raise in Python when the receiver has the wrong type or the item is
  missing; every such exception is raised inside a \<^verbatim>\<open>try\<close> whose handler catches
  \<^verbatim>\<open>Exception\<close>, so the model only records that one was raised: the result \<open>None\<close>.
\<close>

text \<open>\<^verbatim>\<open>x.get(k, d)\<close>: only a dict has the method.\<close>

fun py_get :: "json \<Rightarrow> string \<Rightarrow> json \<Rightarrow> json option" where
  "py_get (JObj kvs) k d = Some (case map_of kvs k of None \<Rightarrow> d | Some v \<Rightarrow> v)"
| "py_get _ k d = None"

text \<open>\<^verbatim>\<open>x[k]\<close> for a string key \<open>k\<close>: KeyError or TypeError unless \<open>x\<close> is a dict with \<open>k\<close>.\<close>

fun py_item :: "json \<Rightarrow> string \<Rightarrow> json option" where
  "py_item (JObj kvs) k = map_of kvs k"
| "py_item _ k = None"

text \<open>
  \<^verbatim>\<open>x[0]\<close>: the first element of a list, the first character of a string; IndexError when
  empty, KeyError on a dict (whose keys are strings), TypeError otherwise.
\<close>

fun py_first :: "json \<Rightarrow> json option" where
  "py_first (JArr (x # xs)) = Some x"
| "py_first (JStr (c # cs)) = Some (JStr [c])"
| "py_first _ = None"

text \<open>\<^verbatim>\<open>next(iter(x.values()))\<close>: AttributeError unless a dict, StopIteration when empty.\<close>

fun py_first_value :: "json \<Rightarrow> json option" where
  "py_first_value (JObj ((k, v) # kvs)) = Some v"
| "py_first_value _ = None"

text \<open>
  \<^verbatim>\<open>str.isspace\<close> on one character, for the code points below 256: the ASCII white space,
  the separators \<open>0x1c\<close> to \<open>0x1f\<close>, \<open>0x85\<close> and \<open>0xa0\<close>.
\<close>

definition py_isspace :: "char \<Rightarrow> bool" where
  "py_isspace c = ((of_char c :: nat) \<in> set [9, 10, 11, 12, 13, 28, 29, 30, 31, 32, 133, 160])"

definition strip :: "string \<Rightarrow> string" where
  "strip s = rev (dropWhile py_isspace (rev (dropWhile py_isspace s)))"

text \<open>\<^verbatim>\<open>x.strip()\<close>: only a string has the method.\<close>

fun py_strip :: "json \<Rightarrow> string option" where
  "py_strip (JStr s) = Some (strip s)"
| "py_strip _ = None"

definition replace_char :: "char \<Rightarrow> char \<Rightarrow> string \<Rightarrow> string" where
  "replace_char a b s = map (\<lambda>c. if c = a then b else c) s"

text \<open>\<^verbatim>\<open>x.replace(' ', '_')\<close>: only a string has the method.\<close>

fun py_replace_spaces :: "json \<Rightarrow> string option" where
  "py_replace_spaces (JStr s) = Some (replace_char (CHR '' '') (CHR ''_'') s)"
| "py_replace_spaces _ = None"

text \<open>A value that is a string or \<^verbatim>\<open>None\<close>: its truthiness and its text in an f-string.\<close>

fun truthy_str :: "string option \<Rightarrow> bool" where
  "truthy_str None = False"
| "truthy_str (Some s) = (s \<noteq> [])"

fun fstr :: "string option \<Rightarrow> string" where
  "fstr None = ''None''"
| "fstr (Some s) = s"

section \<open>The outside world: requests, replies and the trace of a run\<close>

text \<open>
  An author as the library server lists it: a dict whose values are strings or \<^verbatim>\<open>None\<close>
  (the keys read are \<^verbatim>\<open>id\<close>, \<^verbatim>\<open>name\<close>, \<^verbatim>\<open>description\<close> and \<^verbatim>\<open>imagePath\<close>).
\<close>

type_synonym author = "(string \<times> string option) list"

text \<open>\<^verbatim>\<open>author.get(k)\<close> and \<^verbatim>\<open>author.get(k, d)\<close>.\<close>

definition author_get :: "author \<Rightarrow> string \<Rightarrow> string option" where
  "author_get a k = (case map_of a k of None \<Rightarrow> None | Some v \<Rightarrow> v)"

definition author_get_default :: "author \<Rightarrow> string \<Rightarrow> string \<Rightarrow> string option" where
  "author_get_default a k d = (case map_of a k of None \<Rightarrow> Some d | Some v \<Rightarrow> v)"

text \<open>
  The HTTP requests of the program. \<open>Session_Get\<close>, \<open>Session_Patch\<close> and \<open>Session_Post\<close> go
  through \<^verbatim>\<open>self.session\<close> to the library server (URL, JSON payload); \<open>Requests_Get\<close> is
  the plain \<^verbatim>\<open>requests.get\<close> to Wikipedia (URL, query parameters). Headers are fixed
  and left out.
\<close>

datatype request =
    Session_Get string
  | Session_Patch string "(string \<times> json) list"
  | Session_Post string "(string \<times> json) list"
  | Requests_Get string "(string \<times> json) list"

text \<open>The log lines, one constructor per \<^verbatim>\<open>logger\<close> call; the text of a caught exception is left out.\<close>

datatype level = INFO | WARNING | ERROR

datatype message =
    Found_Authors nat
  | Error_Fetching_Authors
  | No_Wikipedia_Page string
  | Found_Wikipedia_Data string
  | Error_Searching_Wikipedia string
  | Uploading_Image json
  | Image_Upload_Failed nat string
  | Uploaded_Image string
  | Error_Uploading_Image string
  | Updated_Description string
  | Error_Updating_Author string
  | No_Authors_Found
  | Skipping string
  | Processing string
  | Would_Update string
  | Would_Description string
  | Would_Image json
  | Processing_Complete
  | Authors_Updated nat
  | Authors_Skipped nat

datatype event =
    Request request
  | Log level message
  | Sleep nat

type_synonym trace = "event list"

text \<open>
  What a request comes back with: the call raises (connection error, timeout, ...), or a
  response with its status code and body arrives.
\<close>

datatype 'b reply = Transport_Error | Response nat 'b

text \<open>
  The body of the reply to the author listing, as far as \<^verbatim>\<open>get_all_authors\<close> reads it:
  \<open>Authors_Dict (Some as)\<close> is a JSON dict whose \<^verbatim>\<open>authors\<close> item is the list \<open>as\<close>,
  \<open>Authors_Dict None\<close> a dict without that key, \<open>Unusable\<close> anything on which
  \<^verbatim>\<open>response.json().get('authors', [])\<close> or \<^verbatim>\<open>len(authors)\<close> raises. An \<^verbatim>\<open>authors\<close>
  item that has a length and is not a list of such dicts is outside the model.
\<close>

datatype authors_body = Unusable | Authors_Dict "author list option"

text \<open>
  The servers are oracles: the reply to a request is a function of everything the run has
  done so far, the request itself being the last event of the trace. The body of a write
  reply is its text; the body of a Wikipedia reply is \<open>None\<close> when
  \<^verbatim>\<open>response.json()\<close> raises.
\<close>

record world =
  authors_reply :: "trace \<Rightarrow> authors_body reply"
  write_reply :: "trace \<Rightarrow> string reply"
  wiki_reply :: "trace \<Rightarrow> json option reply"

text \<open>
  \<^verbatim>\<open>Response.raise_for_status()\<close> of the \<^verbatim>\<open>requests\<close> library raises HTTPError for the
  client and server error codes, and for no other status.
\<close>

definition raises_for_status :: "nat \<Rightarrow> bool" where
  "raises_for_status sc = (400 \<le> sc \<and> sc < 600)"

fun is_patch :: "event \<Rightarrow> bool" where
  "is_patch (Request (Session_Patch u d)) = True"
| "is_patch _ = False"

fun is_post :: "event \<Rightarrow> bool" where
  "is_post (Request (Session_Post u d)) = True"
| "is_post _ = False"

text \<open>The write calls to the library server: the PATCH of a description and the image upload.\<close>

definition is_write :: "event \<Rightarrow> bool" where
  "is_write e = (is_patch e \<or> is_post e)"

fun is_lookup :: "event \<Rightarrow> bool" where
  "is_lookup (Request (Requests_Get u d)) = True"
| "is_lookup _ = False"

fun is_sleep :: "event \<Rightarrow> bool" where
  "is_sleep (Sleep d) = True"
| "is_sleep _ = False"

section \<open>\<^verbatim>\<open>AudiobookshelfMetadataUpdater\<close>\<close>

record updater =
  abs_url :: string
  library_id :: "string option"
  headers :: "(string \<times> string) list"

definition rstrip_slash :: "string \<Rightarrow> string" where
  "rstrip_slash s = rev (dropWhile (\<lambda>c. c = CHR ''/'') (rev s))"

definition init :: "string \<Rightarrow> string \<Rightarrow> string option \<Rightarrow> updater" where
  "init url api_token lib =
     \<lparr>abs_url = rstrip_slash url, library_id = lib,
      headers = [(''Authorization'', ''Bearer '' @ api_token)]\<rparr>"

definition get_all_authors :: "world \<Rightarrow> updater \<Rightarrow> trace \<Rightarrow> author list \<times> trace" where
  "get_all_authors w self t =
     (let url = (if truthy_str (library_id self)
                 then abs_url self @ ''/api/libraries/'' @ fstr (library_id self) @ ''/authors''
                 else abs_url self @ ''/api/authors'');
          t1 = t @ [Request (Session_Get url)];
          failed = ([], t1 @ [Log ERROR Error_Fetching_Authors])
      in case authors_reply w t1 of
           Transport_Error \<Rightarrow> failed
         | Response sc body \<Rightarrow>
             if raises_for_status sc then failed
             else (case body of
                     Unusable \<Rightarrow> failed
                   | Authors_Dict None \<Rightarrow> ([], t1 @ [Log INFO (Found_Authors 0)])
                   | Authors_Dict (Some authors) \<Rightarrow>
                       (authors, t1 @ [Log INFO (Found_Authors (length authors))])))"

definition needs_update :: "author \<Rightarrow> bool" where
  "needs_update a =
     (let missing_description = (\<not> truthy_str (author_get a ''description''));
          missing_image = (\<not> truthy_str (author_get a ''imagePath''))
      in missing_description \<or> missing_image)"

text \<open>The two write requests: the PATCH with the description, the POST with the image URL.\<close>

definition patch_request :: "updater \<Rightarrow> string option \<Rightarrow> json \<Rightarrow> event" where
  "patch_request self author_id description =
     Request (Session_Patch (abs_url self @ ''/api/authors/'' @ fstr author_id)
                [(''description'', description)])"

definition post_request :: "updater \<Rightarrow> string option \<Rightarrow> json \<Rightarrow> event" where
  "post_request self author_id image_url =
     Request (Session_Post (abs_url self @ ''/api/authors/'' @ fstr author_id @ ''/image'')
                [(''url'', image_url)])"

definition upload_image_url :: "world \<Rightarrow> updater \<Rightarrow> string option \<Rightarrow> json \<Rightarrow> trace \<Rightarrow> bool \<times> trace" where
  "upload_image_url w self author_id image_url t =
     (let t1 = t @ [Log INFO (Uploading_Image image_url), post_request self author_id image_url];
          failed = (\<lambda>t'. (False, t' @ [Log ERROR (Error_Uploading_Image (fstr author_id))]));
          done = (\<lambda>t'. (True, t' @ [Log INFO (Uploaded_Image (fstr author_id))]))
      in case write_reply w t1 of
           Transport_Error \<Rightarrow> failed t1
         | Response status_code text \<Rightarrow>
             if status_code \<noteq> 200 then
               (let t2 = t1 @ [Log ERROR (Image_Upload_Failed status_code text)]
                in if raises_for_status status_code then failed t2 else done t2)
             else done t1)"

definition update_author :: "world \<Rightarrow> updater \<Rightarrow> string option \<Rightarrow> json \<Rightarrow> json \<Rightarrow> trace \<Rightarrow> bool \<times> trace" where
  "update_author w self author_id description image_url t =
     (let failed = (\<lambda>t'. (False, t' @ [Log ERROR (Error_Updating_Author (fstr author_id))]));
          upload = (\<lambda>success t'.
             if truthy image_url then
               (let (image_success, t'') = upload_image_url w self author_id image_url t'
                in (success \<and> image_success, t''))
             else (success, t'))
      in if truthy description then
           (let t1 = t @ [patch_request self author_id description]
            in case write_reply w t1 of
                 Transport_Error \<Rightarrow> failed t1
               | Response status_code text \<Rightarrow>
                   if raises_for_status status_code then failed t1
                   else upload True (t1 @ [Log INFO (Updated_Description (fstr author_id))]))
         else upload True t)"

text \<open>
  Whether the description update went through, \<open>t1\<close> being the trace up to and including
  its PATCH: the request returned and \<^verbatim>\<open>raise_for_status\<close> did not raise.
\<close>

definition description_updated :: "world \<Rightarrow> trace \<Rightarrow> bool" where
  "description_updated w t1 =
     (case write_reply w t1 of
        Transport_Error \<Rightarrow> False
      | Response status_code text \<Rightarrow> \<not> raises_for_status status_code)"

subsection \<open>\<^verbatim>\<open>search_wikipedia\<close>\<close>

record wiki_data =
  description :: string
  image_url :: json
  source :: string

definition search_url :: string where
  "search_url = ''https://en.wikipedia.org/w/api.php''"

definition search_params :: "string \<Rightarrow> (string \<times> json) list" where
  "search_params author_name =
     [(''action'', JStr ''query''), (''format'', JStr ''json''), (''list'', JStr ''search''),
      (''srsearch'', JStr (author_name @ '' author writer'')), (''srlimit'', JNum 1)]"

definition page_params :: "json \<Rightarrow> (string \<times> json) list" where
  "page_params page_title =
     [(''action'', JStr ''query''), (''format'', JStr ''json''), (''titles'', page_title),
      (''prop'', JStr ''extracts|pageimages''), (''exintro'', JBool True),
      (''explaintext'', JBool True), (''piprop'', JStr ''original''), (''redirects'', JNum 1)]"

text \<open>\<^verbatim>\<open>search_data.get('query', {}).get('search')\<close>\<close>

definition search_hits :: "json \<Rightarrow> json option" where
  "search_hits search_data =
     do { q \<leftarrow> py_get search_data ''query'' (JObj []); py_get q ''search'' JNull }"

text \<open>\<^verbatim>\<open>search_data['query']['search'][0]['title']\<close>\<close>

definition top_title :: "json \<Rightarrow> json option" where
  "top_title search_data =
     do { q \<leftarrow> py_item search_data ''query''; s \<leftarrow> py_item q ''search'';
          x \<leftarrow> py_first s; py_item x ''title'' }"

text \<open>\<^verbatim>\<open>next(iter(page_data.get('query', {}).get('pages', {}).values()))\<close>\<close>

definition first_page :: "json \<Rightarrow> json option" where
  "first_page page_data =
     do { q \<leftarrow> py_get page_data ''query'' (JObj []); pages \<leftarrow> py_get q ''pages'' (JObj []);
          py_first_value pages }"

text \<open>The dict built from the page: \<open>None\<close> when one of its three expressions raises.\<close>

definition build_result :: "json \<Rightarrow> json \<Rightarrow> wiki_data option" where
  "build_result page_info page_title =
     do { extract \<leftarrow> py_get page_info ''extract'' (JStr []);
          d \<leftarrow> py_strip extract;
          original \<leftarrow> py_get page_info ''original'' (JObj []);
          i \<leftarrow> py_get original ''source'' JNull;
          title \<leftarrow> py_replace_spaces page_title;
          Some \<lparr>description = d, image_url = i,
                source = ''https://en.wikipedia.org/wiki/'' @ title\<rparr> }"

definition search_wikipedia :: "world \<Rightarrow> string option \<Rightarrow> trace \<Rightarrow> wiki_data option \<times> trace" where
  "search_wikipedia w author_name t =
     (let failed = (\<lambda>t'. (None, t' @ [Log ERROR (Error_Searching_Wikipedia (fstr author_name))]));
          t1 = t @ [Request (Requests_Get search_url (search_params (fstr author_name)))]
      in case wiki_reply w t1 of
           Transport_Error \<Rightarrow> failed t1
         | Response sc None \<Rightarrow> failed t1
         | Response sc (Some search_data) \<Rightarrow>
             (case search_hits search_data of
                None \<Rightarrow> failed t1
              | Some hits \<Rightarrow>
                  if \<not> truthy hits
                  then (None, t1 @ [Log WARNING (No_Wikipedia_Page (fstr author_name))])
                  else (case top_title search_data of
                          None \<Rightarrow> failed t1
                        | Some page_title \<Rightarrow>
                            (let t2 = t1 @ [Request (Requests_Get search_url (page_params page_title))]
                             in case wiki_reply w t2 of
                                  Transport_Error \<Rightarrow> failed t2
                                | Response sc' None \<Rightarrow> failed t2
                                | Response sc' (Some page_data) \<Rightarrow>
                                    (case do { page_info \<leftarrow> first_page page_data;
                                               build_result page_info page_title } of
                                       None \<Rightarrow> failed t2
                                     | Some result \<Rightarrow>
                                         (Some result,
                                          t2 @ [Log INFO (Found_Wikipedia_Data (fstr author_name))]))))))"

subsection \<open>\<^verbatim>\<open>process_authors\<close>\<close>

text \<open>The two counters of the loop.\<close>

record summary =
  updated_count :: nat
  skipped_count :: nat

text \<open>The lines a dry run logs for a lookup result.\<close>

definition dry_run_log :: "string option \<Rightarrow> wiki_data \<Rightarrow> trace" where
  "dry_run_log author_name wd =
     [Log INFO (Would_Update (fstr author_name))]
     @ (if description wd \<noteq> [] then [Log INFO (Would_Description (take 100 (description wd)))] else [])
     @ (if truthy (image_url wd) then [Log INFO (Would_Image (image_url wd))] else [])"

text \<open>The two keyword arguments of the call to \<^verbatim>\<open>update_author\<close>; \<open>JNull\<close> is \<^verbatim>\<open>None\<close>.\<close>

definition description_arg :: "author \<Rightarrow> wiki_data \<Rightarrow> json" where
  "description_arg author wd =
     (if \<not> truthy_str (author_get author ''description'') then JStr (description wd) else JNull)"

definition image_url_arg :: "author \<Rightarrow> wiki_data \<Rightarrow> json" where
  "image_url_arg author wd =
     (if \<not> truthy_str (author_get author ''imagePath'') then image_url wd else JNull)"

text \<open>The body of the loop, for one author.\<close>

definition process_author ::
  "world \<Rightarrow> updater \<Rightarrow> bool \<Rightarrow> nat \<Rightarrow> author \<Rightarrow> summary \<times> trace \<Rightarrow> summary \<times> trace" where
  "process_author w self dry_run delay author st =
     (let (c, t) = st;
          author_name = author_get_default author ''name'' ''Unknown'';
          author_id = author_get author ''id''
      in if \<not> needs_update author
         then (c\<lparr>skipped_count := skipped_count c + 1\<rparr>,
               t @ [Log INFO (Skipping (fstr author_name))])
         else
           (let (found, t1) = search_wikipedia w author_name
                                (t @ [Log INFO (Processing (fstr author_name))]);
                (c', t2) =
                  (case found of
                     None \<Rightarrow> (c, t1)
                   | Some wd \<Rightarrow>
                       if dry_run then (c, t1 @ dry_run_log author_name wd)
                       else
                         (let (success, t') = update_author w self author_id
                                                (description_arg author wd) (image_url_arg author wd) t1
                          in (if success then c\<lparr>updated_count := updated_count c + 1\<rparr> else c, t')))
            in (c', t2 @ [Sleep delay])))"

fun process_loop ::
  "world \<Rightarrow> updater \<Rightarrow> bool \<Rightarrow> nat \<Rightarrow> author list \<Rightarrow> summary \<times> trace \<Rightarrow> summary \<times> trace" where
  "process_loop w self dry_run delay [] st = st"
| "process_loop w self dry_run delay (author # authors) st =
     process_loop w self dry_run delay authors (process_author w self dry_run delay author st)"

text \<open>
  A run. The result is \<open>None\<close> when the function returns before its counters exist (no
  authors), and the final counters otherwise. The delay is a number of time units.
\<close>

definition process_authors ::
  "world \<Rightarrow> updater \<Rightarrow> bool \<Rightarrow> nat \<Rightarrow> trace \<Rightarrow> summary option \<times> trace" where
  "process_authors w self dry_run delay t =
     (let (authors, t1) = get_all_authors w self t
      in if authors = [] then (None, t1 @ [Log ERROR No_Authors_Found])
         else
           (let (c, t2) = process_loop w self dry_run delay authors
                            (\<lparr>updated_count = 0, skipped_count = 0\<rparr>, t1)
            in (Some c, t2 @ [Log INFO Processing_Complete,
                              Log INFO (Authors_Updated (updated_count c)),
                              Log INFO (Authors_Skipped (skipped_count c))])))"

text \<open>How many authors a run counted as updated and as skipped: none when it returned early.\<close>

definition updated_total :: "summary option \<Rightarrow> nat" where
  "updated_total r = (case r of None \<Rightarrow> 0 | Some c \<Rightarrow> updated_count c)"

definition skipped_total :: "summary option \<Rightarrow> nat" where
  "skipped_total r = (case r of None \<Rightarrow> 0 | Some c \<Rightarrow> skipped_count c)"

section \<open>Concrete runs\<close>

text \<open>
  The records of the end-to-end scenarios: an author without a description, one without an
  image, one without either, and one with both.
\<close>

definition jane :: author where
  "jane = [(''id'', Some ''a1''), (''name'', Some ''Jane Doe''),
           (''description'', None), (''imagePath'', Some ''/img.jpg'')]"

definition ann :: author where
  "ann = [(''id'', Some ''a2''), (''name'', Some ''Ann Roe''),
          (''description'', Some ''Ann Roe wrote books.''), (''imagePath'', None)]"

definition bob :: author where
  "bob = [(''id'', Some ''a3''), (''name'', Some ''Bob Poe''),
          (''description'', Some []), (''imagePath'', None)]"

definition kim :: author where
  "kim = [(''id'', Some ''a4''), (''name'', Some ''Kim Lee''),
          (''description'', Some ''Kim Lee is a poet.''), (''imagePath'', Some ''/kim.png'')]"

definition server :: updater where
  "server = init ''http://localhost:13378/'' ''secret'' None"

text \<open>Replies of the encyclopedia: a search with one hit or none, a page with or without an image.\<close>

definition one_hit :: json where
  "one_hit = JObj [(''query'', JObj [(''search'', JArr [JObj [(''title'', JStr ''Jane Doe'')]])])]"

definition no_hits :: json where
  "no_hits = JObj [(''query'', JObj [(''search'', JArr [])])]"

definition page_with_image :: json where
  "page_with_image =
     JObj [(''query'', JObj [(''pages'', JObj [(''736'',
       JObj [(''title'', JStr ''Jane Doe''),
             (''extract'', JStr ''  Jane Doe is a writer. ''),
             (''original'', JObj [(''source'', JStr ''http://x/y.jpg'')])])])])]"

definition page_without_image :: json where
  "page_without_image =
     JObj [(''query'', JObj [(''pages'', JObj [(''736'',
       JObj [(''title'', JStr ''Jane Doe''), (''extract'', JStr ''Jane Doe is a writer.'')])])])]"

text \<open>Whether the request just issued is the search (as opposed to the page query).\<close>

fun asks_search :: "trace \<Rightarrow> bool" where
  "asks_search [] = False"
| "asks_search [Request (Requests_Get u ps)] = (map_of ps ''list'' = Some (JStr ''search''))"
| "asks_search [e] = False"
| "asks_search (e # es) = asks_search es"

text \<open>Whether the request just issued is the PATCH of a description.\<close>

fun asks_patch :: "trace \<Rightarrow> bool" where
  "asks_patch [] = False"
| "asks_patch [e] = is_patch e"
| "asks_patch (e # es) = asks_patch es"

definition wikipedia :: "json \<Rightarrow> trace \<Rightarrow> json option reply" where
  "wikipedia page t = Response 200 (Some (if asks_search t then one_hit else page))"

text \<open>
  Worlds: every request answered with 200; the encyclopedia page without an image; the
  search without a hit; a library server that answers a PATCH with 304 (and the rest
  with 200), one that answers every write with 304, with 201, with 404, one that
  cannot be reached, and one without authors.
\<close>

definition world_ok :: world where
  "world_ok = \<lparr>authors_reply = (\<lambda>t. Response 200 (Authors_Dict (Some [jane, kim]))),
               write_reply = (\<lambda>t. Response 200 []),
               wiki_reply = wikipedia page_with_image\<rparr>"

definition world_no_image :: world where
  "world_no_image = world_ok\<lparr>wiki_reply := wikipedia page_without_image\<rparr>"

definition world_no_hits :: world where
  "world_no_hits = world_ok\<lparr>wiki_reply := (\<lambda>t. Response 200 (Some no_hits))\<rparr>"

definition world_patch_304 :: world where
  "world_patch_304 =
     world_ok\<lparr>write_reply := (\<lambda>t. if asks_patch t then Response 304 [] else Response 200 [])\<rparr>"

definition world_304 :: world where
  "world_304 = world_ok\<lparr>write_reply := (\<lambda>t. Response 304 [])\<rparr>"

definition world_201 :: world where
  "world_201 = world_ok\<lparr>write_reply := (\<lambda>t. Response 201 [])\<rparr>"

definition world_404 :: world where
  "world_404 = world_ok\<lparr>write_reply := (\<lambda>t. Response 404 ''Not Found'')\<rparr>"

definition world_down :: world where
  "world_down = \<lparr>authors_reply = (\<lambda>t. Transport_Error),
                 write_reply = (\<lambda>t. Transport_Error),
                 wiki_reply = (\<lambda>t. Transport_Error)\<rparr>"

definition world_empty :: world where
  "world_empty = world_ok\<lparr>authors_reply := (\<lambda>t. Response 200 (Authors_Dict (Some [])))\<rparr>"

text \<open>A library with the one author \<open>ann\<close>, and the encyclopedia page without an image.\<close>

definition world_ann :: world where
  "world_ann = world_no_image\<lparr>authors_reply := (\<lambda>t. Response 200 (Authors_Dict (Some [ann])))\<rparr>"

section \<open>What each operation adds to the trace\<close>

text \<open>
  Every operation only appends to the trace, and only events of its own kinds. The frame
  lemmas are stated for any property \<open>P\<close> of events that none of those kinds has.
\<close>


lemma upload_image_url_frame:
  assumes "\<And>u ps. \<not> P (Request (Session_Post u ps))" and "\<And>l m. \<not> P (Log l m)"
  shows "filter P (snd (upload_image_url w self a i t)) = filter P t"
  using assms by (simp add: upload_image_url_def post_request_def Let_def split: reply.splits)

lemma upload_image_url_posts:
  "filter is_post (snd (upload_image_url w self a i t)) = filter is_post t @ [post_request self a i]"
  by (simp add: upload_image_url_def post_request_def Let_def split: reply.splits)

lemma upload_image_url_extends:
  "\<exists>es. snd (upload_image_url w self a i t) = t @ es \<and> filter is_sleep es = []"
  by (simp add: upload_image_url_def post_request_def Let_def split: reply.splits)

lemma update_author_frame:
  assumes "\<And>u ps. \<not> P (Request (Session_Post u ps))" and "\<And>u ps. \<not> P (Request (Session_Patch u ps))"
    and "\<And>l m. \<not> P (Log l m)"
  shows "filter P (snd (update_author w self a d i t)) = filter P t"
  using assms
  by (simp add: update_author_def patch_request_def Let_def split_beta upload_image_url_frame
        split: reply.splits)

lemma update_author_extends:
  "\<exists>es. snd (update_author w self a d i t) = t @ es \<and> filter is_sleep es = []"
proof -
  have up: "\<exists>es. snd (upload_image_url w self a i (t @ xs)) = t @ es \<and> filter is_sleep es = []"
    if "filter is_sleep xs = []" for xs
  proof -
    obtain es where "snd (upload_image_url w self a i (t @ xs)) = (t @ xs) @ es" "filter is_sleep es = []"
      using upload_image_url_extends by blast
    with that show ?thesis by (intro exI [of _ "xs @ es"]) simp
  qed
  show ?thesis
    using up [of "[]"] up [of "[patch_request self a d, Log INFO (Updated_Description (fstr a))]"]
    by (simp add: update_author_def patch_request_def Let_def split_beta split: reply.splits)
qed

lemma search_wikipedia_frame:
  assumes "\<And>u ps. \<not> P (Request (Requests_Get u ps))" and "\<And>l m. \<not> P (Log l m)"
  shows "filter P (snd (search_wikipedia w n t)) = filter P t"
  using assms by (simp add: search_wikipedia_def Let_def split: reply.splits option.splits)

lemma search_wikipedia_extends:
  "\<exists>es. snd (search_wikipedia w n t) = t @ es \<and> filter is_sleep es = [] \<and> filter is_lookup es \<noteq> []"
  by (simp add: search_wikipedia_def Let_def split: reply.splits option.splits)

lemma get_all_authors_frame:
  assumes "\<And>u. \<not> P (Request (Session_Get u))" and "\<And>l m. \<not> P (Log l m)"
  shows "filter P (snd (get_all_authors w self t)) = filter P t"
  using assms by (simp add: get_all_authors_def Let_def split: reply.splits option.splits authors_body.splits)

lemmas world_defs = world_ok_def world_no_image_def world_no_hits_def world_patch_304_def
  world_304_def world_201_def world_404_def world_down_def world_empty_def wikipedia_def
  one_hit_def no_hits_def page_with_image_def page_without_image_def server_def init_def
  rstrip_slash_def jane_def ann_def bob_def kim_def

section \<open>The library client\<close>

text \<open>
  C3. \<^verbatim>\<open>update_author\<close> sends the PATCH exactly when the description argument is
  truthy, and uploads the image exactly when the image URL argument is truthy and the
  description update, if there was one, went through. Its result is the conjunction of
  the results of the sub-operations it invoked: \<open>patched\<close> is \<open>True\<close> when no description
  update was invoked, the upload contributes only when it was invoked, and with both
  arguments empty the result is \<open>True\<close>.
\<close>

theorem update_author_and:
  "(let t1 = t @ [patch_request self a d];
        patched = (if truthy d then description_updated w t1 else True);
        t2 = (if truthy d then t1 @ [Log INFO (Updated_Description (fstr a))] else t);
        uploads = (truthy i \<and> patched);
        r = update_author w self a d i t
    in fst r = (patched \<and> (if uploads then fst (upload_image_url w self a i t2) else True))
     \<and> filter is_patch (snd r) = filter is_patch t @ (if truthy d then [patch_request self a d] else [])
     \<and> filter is_post (snd r) = filter is_post t @ (if uploads then [post_request self a i] else []))"
  by (simp add: update_author_def description_updated_def patch_request_def Let_def split_beta
        upload_image_url_frame upload_image_url_posts split: reply.splits)

theorem update_author_and_witness:
  "truthy (JStr ''bio'') \<and> truthy (JStr ''http://x/y.jpg'')
   \<and> update_author world_ok server (Some ''a1'') (JStr ''bio'') (JStr ''http://x/y.jpg'') [] =
       (True, [patch_request server (Some ''a1'') (JStr ''bio''),
               Log INFO (Updated_Description ''a1''),
               Log INFO (Uploading_Image (JStr ''http://x/y.jpg'')),
               post_request server (Some ''a1'') (JStr ''http://x/y.jpg''),
               Log INFO (Uploaded_Image ''a1'')])
   \<and> update_author world_404 server (Some ''a1'') (JStr ''bio'') (JStr ''http://x/y.jpg'') [] =
       (False, [patch_request server (Some ''a1'') (JStr ''bio''),
               Log ERROR (Error_Updating_Author ''a1'')])
   \<and> update_author world_404 server (Some ''a1'') JNull JNull [] = (True, [])"
  using update_author_and [of "[]" server "Some ''a1''" "JStr ''bio''" world_ok "JStr ''http://x/y.jpg''"]
  by (simp add: update_author_def upload_image_url_def raises_for_status_def world_defs Let_def)

text \<open>
  What \<^verbatim>\<open>upload_image_url\<close> returns: \<open>False\<close> on a transport error and on a 4xx or 5xx
  status, \<open>True\<close> on every other status; a status other than 200 is logged as a failure
  either way, as on 201.
\<close>

lemma upload_image_url_result:
  "fst (upload_image_url w self a i t) =
     (case write_reply w (t @ [Log INFO (Uploading_Image i), post_request self a i]) of
        Transport_Error \<Rightarrow> False
      | Response sc text \<Rightarrow> \<not> (400 \<le> sc \<and> sc < 600))"
  by (simp add: upload_image_url_def raises_for_status_def Let_def split: reply.splits)

lemma upload_image_url_201:
  "upload_image_url world_201 server (Some ''a1'') (JStr ''http://x/y.jpg'') [] =
     (True, [Log INFO (Uploading_Image (JStr ''http://x/y.jpg'')),
             post_request server (Some ''a1'') (JStr ''http://x/y.jpg''),
             Log ERROR (Image_Upload_Failed 201 []),
             Log INFO (Uploaded_Image ''a1'')])"
  by (simp add: upload_image_url_def raises_for_status_def world_defs Let_def)

text \<open>
  C4. The upload is meant to fail on every status other than 200: it logs
  \<open>Image_Upload_Failed\<close> and calls \<^verbatim>\<open>raise_for_status\<close>. That call raises for 4xx and
  5xx only, so on the status 304 the failure is logged, nothing is raised, and the result
  is \<open>True\<close>.
\<close>

theorem upload_image_url_304:
  "upload_image_url world_304 server (Some ''a1'') (JStr ''http://x/y.jpg'') [] =
     (True, [Log INFO (Uploading_Image (JStr ''http://x/y.jpg'')),
             post_request server (Some ''a1'') (JStr ''http://x/y.jpg''),
             Log ERROR (Image_Upload_Failed 304 []),
             Log INFO (Uploaded_Image ''a1'')])"
  by (simp add: upload_image_url_def raises_for_status_def world_defs Let_def)

text \<open>
  C10, as stated, fails: with both arguments non-empty and a PATCH answered with the
  non-2xx status 304, \<^verbatim>\<open>raise_for_status\<close> does not raise, the image upload is
  attempted and the result is \<open>True\<close>.
\<close>

theorem update_author_304_counterexample:
  "truthy (JStr ''bio'') \<and> truthy (JStr ''http://x/y.jpg'')
   \<and> write_reply world_patch_304 [patch_request server (Some ''a1'') (JStr ''bio'')] = Response 304 []
   \<and> \<not> (200 \<le> (304::nat) \<and> (304::nat) < 300)
   \<and> fst (update_author world_patch_304 server (Some ''a1'') (JStr ''bio'') (JStr ''http://x/y.jpg'') [])
   \<and> filter is_post (snd (update_author world_patch_304 server (Some ''a1'') (JStr ''bio'')
         (JStr ''http://x/y.jpg'') [])) = [post_request server (Some ''a1'') (JStr ''http://x/y.jpg'')]"
  by (simp add: update_author_def upload_image_url_def patch_request_def post_request_def
        raises_for_status_def world_defs Let_def)

text \<open>
  C10, amended. For every call of \<^verbatim>\<open>update_author\<close> with a non-empty description and a
  non-empty image URL: if the PATCH raises a transport error or is answered with a 4xx or
  5xx status, the call logs the error and returns \<open>False\<close>, and no image upload is
  attempted.
\<close>

theorem update_author_patch_raises:
  assumes "truthy d" and "truthy i"
    and "write_reply w (t @ [patch_request self a d]) = Transport_Error
         \<or> (\<exists>sc text. write_reply w (t @ [patch_request self a d]) = Response sc text
                \<and> 400 \<le> sc \<and> sc < 600)"
  shows "update_author w self a d i t =
           (False, t @ [patch_request self a d, Log ERROR (Error_Updating_Author (fstr a))])
         \<and> filter is_post (snd (update_author w self a d i t)) = filter is_post t"
  using assms
  by (auto simp add: update_author_def raises_for_status_def patch_request_def Let_def)

theorem update_author_patch_raises_witness:
  "truthy (JStr ''bio'') \<and> truthy (JStr ''http://x/y.jpg'')
   \<and> write_reply world_404 ([] @ [patch_request server (Some ''a1'') (JStr ''bio'')]) = Response 404 ''Not Found''
   \<and> update_author world_404 server (Some ''a1'') (JStr ''bio'') (JStr ''http://x/y.jpg'') [] =
       (False, [patch_request server (Some ''a1'') (JStr ''bio''),
               Log ERROR (Error_Updating_Author ''a1'')])
   \<and> write_reply world_down ([] @ [patch_request server (Some ''a1'') (JStr ''bio'')]) = Transport_Error
   \<and> update_author world_down server (Some ''a1'') (JStr ''bio'') (JStr ''http://x/y.jpg'') [] =
       (False, [patch_request server (Some ''a1'') (JStr ''bio''),
               Log ERROR (Error_Updating_Author ''a1'')])"
  using update_author_patch_raises [of "JStr ''bio''" "JStr ''http://x/y.jpg''" world_404 "[]" server "Some ''a1''"]
    update_author_patch_raises [of "JStr ''bio''" "JStr ''http://x/y.jpg''" world_down "[]" server "Some ''a1''"]
  by (simp add: world_defs)

section \<open>The run\<close>

lemma process_author_dry_run:
  "process_author w self True delay a (c, t) = (c', t') \<Longrightarrow>
     updated_count c' = updated_count c \<and> filter is_write t' = filter is_write t"
  by (auto simp add: process_author_def Let_def split_beta is_write_def dry_run_log_def
        search_wikipedia_frame split: if_splits option.splits)

lemma process_loop_dry_run:
  "process_loop w self True delay as (c, t) = (c', t') \<Longrightarrow>
     updated_count c' = updated_count c \<and> filter is_write t' = filter is_write t"
proof (induction as arbitrary: c t)
  case Nil
  then show ?case by simp
next
  case (Cons a as)
  obtain c1 t1 where step: "process_author w self True delay a (c, t) = (c1, t1)"
    by (cases "process_author w self True delay a (c, t)")
  with Cons.prems have "process_loop w self True delay as (c1, t1) = (c', t')"
    by simp
  from Cons.IH [OF this] process_author_dry_run [OF step] show ?case
    by simp
qed

text \<open>
  C2. For every world (so for every list of authors and every outcome of every lookup),
  a dry run adds no write request to the trace, neither a PATCH of a description nor an
  image upload, and counts no author as updated.
\<close>

theorem dry_run_no_writes:
  "filter is_write (snd (process_authors w self True delay t)) = filter is_write t
   \<and> updated_total (fst (process_authors w self True delay t)) = 0"
proof -
  obtain as t1 where g: "get_all_authors w self t = (as, t1)"
    by (cases "get_all_authors w self t")
  have t1: "filter is_write t1 = filter is_write t"
    using get_all_authors_frame [of is_write w self t] g by (simp add: is_write_def)
  obtain c t2 where l: "process_loop w self True delay as
      (\<lparr>updated_count = 0, skipped_count = 0\<rparr>, t1) = (c, t2)"
    by (cases "process_loop w self True delay as (\<lparr>updated_count = 0, skipped_count = 0\<rparr>, t1)")
  from process_loop_dry_run [OF l] t1 g l show ?thesis
    by (simp add: process_authors_def updated_total_def is_write_def)
qed

theorem dry_run_no_writes_witness:
  "fst (process_authors world_ok server True 1 []) = Some \<lparr>updated_count = 0, skipped_count = 1\<rparr>
   \<and> filter is_lookup (snd (process_authors world_ok server True 1 [])) \<noteq> []
   \<and> filter is_write (snd (process_authors world_ok server True 1 [])) = []"
  using dry_run_no_writes [of world_ok server 1 "[]"]
  by (simp add: process_authors_def get_all_authors_def process_author_def search_wikipedia_def
        needs_update_def author_get_def author_get_default_def search_hits_def top_title_def
        first_page_def build_result_def dry_run_log_def strip_def py_isspace_def replace_char_def
        search_url_def search_params_def page_params_def raises_for_status_def world_defs Let_def)


lemma update_author_patches:
  "filter is_patch (snd (update_author w self a d i t)) =
     filter is_patch t @ (if truthy d then [patch_request self a d] else [])"
  by (simp add: update_author_def patch_request_def Let_def split_beta upload_image_url_frame
        split: reply.splits)

lemma update_author_no_upload:
  "\<not> truthy i \<Longrightarrow> filter is_post (snd (update_author w self a d i t)) = filter is_post t"
  by (simp add: update_author_def patch_request_def Let_def split: reply.splits)

lemma update_author_nothing:
  "\<not> truthy d \<Longrightarrow> \<not> truthy i \<Longrightarrow> update_author w self a d i t = (True, t)"
  by (simp add: update_author_def)

text \<open>
  C1. In live mode, after a lookup that returned a result: for an author that has a
  description and no image path, \<^verbatim>\<open>update_author\<close> is called with no description and
  the fetched image URL, and the run sends no PATCH of a description; for an author that
  has an image path and no description, it is called with the fetched description and no
  image URL, and the run uploads no image. The field that was present is never written.
\<close>

theorem merge_never_overwrites:
  assumes "search_wikipedia w (author_get_default a ''name'' ''Unknown'')
             (t @ [Log INFO (Processing (fstr (author_get_default a ''name'' ''Unknown'')))]) = (Some wd, t1)"
  shows "(truthy_str (author_get a ''description'') \<and> \<not> truthy_str (author_get a ''imagePath'') \<longrightarrow>
            process_author w self False delay a (c, t) =
              (let (success, t2) = update_author w self (author_get a ''id'') JNull (image_url wd) t1
               in (if success then c\<lparr>updated_count := updated_count c + 1\<rparr> else c, t2 @ [Sleep delay]))
            \<and> filter is_patch (snd (process_author w self False delay a (c, t))) = filter is_patch t)
       \<and> (\<not> truthy_str (author_get a ''description'') \<and> truthy_str (author_get a ''imagePath'') \<longrightarrow>
            process_author w self False delay a (c, t) =
              (let (success, t2) = update_author w self (author_get a ''id'') (JStr (description wd)) JNull t1
               in (if success then c\<lparr>updated_count := updated_count c + 1\<rparr> else c, t2 @ [Sleep delay]))
            \<and> filter is_post (snd (process_author w self False delay a (c, t))) = filter is_post t)"
proof -
  have t1: "t1 = snd (search_wikipedia w (author_get_default a ''name'' ''Unknown'')
             (t @ [Log INFO (Processing (fstr (author_get_default a ''name'' ''Unknown'')))]))"
    using assms by simp
  have p1: "filter is_patch t1 = filter is_patch t"
    unfolding t1 by (simp add: search_wikipedia_frame)
  have p2: "filter is_post t1 = filter is_post t"
    unfolding t1 by (simp add: search_wikipedia_frame)
  have u1: "filter is_patch (snd (update_author w self x JNull i t1)) = filter is_patch t" for x i
    using p1 by (simp add: update_author_patches)
  have u2: "filter is_post (snd (update_author w self x d JNull t1)) = filter is_post t" for x d
    using p2 by (simp add: update_author_no_upload)
  show ?thesis
    using assms u1 u2
    by (simp add: process_author_def needs_update_def description_arg_def image_url_arg_def
          Let_def split_beta)
qed

lemma lookup_jane:
  "search_wikipedia world_ok (Some ''Jane Doe'') [Log INFO (Processing ''Jane Doe'')] =
     (Some \<lparr>description = ''Jane Doe is a writer.'', image_url = JStr ''http://x/y.jpg'',
            source = ''https://en.wikipedia.org/wiki/Jane_Doe''\<rparr>,
      [Log INFO (Processing ''Jane Doe''),
       Request (Requests_Get search_url (search_params ''Jane Doe'')),
       Request (Requests_Get search_url (page_params (JStr ''Jane Doe''))),
       Log INFO (Found_Wikipedia_Data ''Jane Doe'')])"
  by (simp add: search_wikipedia_def search_hits_def top_title_def first_page_def build_result_def
        strip_def py_isspace_def replace_char_def search_params_def page_params_def world_defs Let_def)

lemma lookup_ann_image:
  "search_wikipedia world_ok (Some ''Ann Roe'') [Log INFO (Processing ''Ann Roe'')] =
     (Some \<lparr>description = ''Jane Doe is a writer.'', image_url = JStr ''http://x/y.jpg'',
            source = ''https://en.wikipedia.org/wiki/Jane_Doe''\<rparr>,
      [Log INFO (Processing ''Ann Roe''),
       Request (Requests_Get search_url (search_params ''Ann Roe'')),
       Request (Requests_Get search_url (page_params (JStr ''Jane Doe''))),
       Log INFO (Found_Wikipedia_Data ''Ann Roe'')])"
  by (simp add: search_wikipedia_def search_hits_def top_title_def first_page_def build_result_def
        strip_def py_isspace_def replace_char_def search_params_def page_params_def world_defs Let_def)

theorem merge_never_overwrites_witness:
  "\<not> truthy_str (author_get jane ''description'') \<and> truthy_str (author_get jane ''imagePath'')
   \<and> process_author world_ok server False 1 jane (\<lparr>updated_count = 0, skipped_count = 0\<rparr>, []) =
       (\<lparr>updated_count = 1, skipped_count = 0\<rparr>,
        [Log INFO (Processing ''Jane Doe''),
         Request (Requests_Get search_url (search_params ''Jane Doe'')),
         Request (Requests_Get search_url (page_params (JStr ''Jane Doe''))),
         Log INFO (Found_Wikipedia_Data ''Jane Doe''),
         patch_request server (Some ''a1'') (JStr ''Jane Doe is a writer.''),
         Log INFO (Updated_Description ''a1''),
         Sleep 1])
   \<and> truthy_str (author_get ann ''description'') \<and> \<not> truthy_str (author_get ann ''imagePath'')
   \<and> process_author world_ok server False 1 ann (\<lparr>updated_count = 0, skipped_count = 0\<rparr>, []) =
       (\<lparr>updated_count = 1, skipped_count = 0\<rparr>,
        [Log INFO (Processing ''Ann Roe''),
         Request (Requests_Get search_url (search_params ''Ann Roe'')),
         Request (Requests_Get search_url (page_params (JStr ''Jane Doe''))),
         Log INFO (Found_Wikipedia_Data ''Ann Roe''),
         Log INFO (Uploading_Image (JStr ''http://x/y.jpg'')),
         post_request server (Some ''a2'') (JStr ''http://x/y.jpg''),
         Log INFO (Uploaded_Image ''a2''),
         Sleep 1])"
proof -
  have name: "author_get_default jane ''name'' ''Unknown'' = Some ''Jane Doe''"
    by (simp add: author_get_default_def jane_def)
  have look: "search_wikipedia world_ok (author_get_default jane ''name'' ''Unknown'')
      ([] @ [Log INFO (Processing (fstr (author_get_default jane ''name'' ''Unknown'')))]) =
     (Some \<lparr>description = ''Jane Doe is a writer.'', image_url = JStr ''http://x/y.jpg'',
            source = ''https://en.wikipedia.org/wiki/Jane_Doe''\<rparr>,
      [Log INFO (Processing ''Jane Doe''),
       Request (Requests_Get search_url (search_params ''Jane Doe'')),
       Request (Requests_Get search_url (page_params (JStr ''Jane Doe''))),
       Log INFO (Found_Wikipedia_Data ''Jane Doe'')])"
    using lookup_jane by (simp add: name)
  have upd: "update_author world_ok server (author_get jane ''id'') (JStr ''Jane Doe is a writer.'') JNull
      [Log INFO (Processing ''Jane Doe''),
       Request (Requests_Get search_url (search_params ''Jane Doe'')),
       Request (Requests_Get search_url (page_params (JStr ''Jane Doe''))),
       Log INFO (Found_Wikipedia_Data ''Jane Doe'')] =
     (True, [Log INFO (Processing ''Jane Doe''),
       Request (Requests_Get search_url (search_params ''Jane Doe'')),
       Request (Requests_Get search_url (page_params (JStr ''Jane Doe''))),
       Log INFO (Found_Wikipedia_Data ''Jane Doe''),
       patch_request server (Some ''a1'') (JStr ''Jane Doe is a writer.''),
       Log INFO (Updated_Description ''a1'')])"
    by (simp add: update_author_def author_get_def jane_def raises_for_status_def world_ok_def)
  have miss: "\<not> truthy_str (author_get jane ''description'') \<and> truthy_str (author_get jane ''imagePath'')"
    by (simp add: author_get_def jane_def)
  have name': "author_get_default ann ''name'' ''Unknown'' = Some ''Ann Roe''"
    by (simp add: author_get_default_def ann_def)
  have look': "search_wikipedia world_ok (author_get_default ann ''name'' ''Unknown'')
      ([] @ [Log INFO (Processing (fstr (author_get_default ann ''name'' ''Unknown'')))]) =
     (Some \<lparr>description = ''Jane Doe is a writer.'', image_url = JStr ''http://x/y.jpg'',
            source = ''https://en.wikipedia.org/wiki/Jane_Doe''\<rparr>,
      [Log INFO (Processing ''Ann Roe''),
       Request (Requests_Get search_url (search_params ''Ann Roe'')),
       Request (Requests_Get search_url (page_params (JStr ''Jane Doe''))),
       Log INFO (Found_Wikipedia_Data ''Ann Roe'')])"
    using lookup_ann_image by (simp add: name')
  have upd': "update_author world_ok server (author_get ann ''id'') JNull (JStr ''http://x/y.jpg'')
      [Log INFO (Processing ''Ann Roe''),
       Request (Requests_Get search_url (search_params ''Ann Roe'')),
       Request (Requests_Get search_url (page_params (JStr ''Jane Doe''))),
       Log INFO (Found_Wikipedia_Data ''Ann Roe'')] =
     (True, [Log INFO (Processing ''Ann Roe''),
       Request (Requests_Get search_url (search_params ''Ann Roe'')),
       Request (Requests_Get search_url (page_params (JStr ''Jane Doe''))),
       Log INFO (Found_Wikipedia_Data ''Ann Roe''),
       Log INFO (Uploading_Image (JStr ''http://x/y.jpg'')),
       post_request server (Some ''a2'') (JStr ''http://x/y.jpg''),
       Log INFO (Uploaded_Image ''a2'')])"
    by (simp add: update_author_def upload_image_url_def author_get_def ann_def
          raises_for_status_def world_ok_def)
  have miss': "truthy_str (author_get ann ''description'') \<and> \<not> truthy_str (author_get ann ''imagePath'')"
    by (simp add: author_get_def ann_def)
  from merge_never_overwrites [OF look, of server 1 "\<lparr>updated_count = 0, skipped_count = 0\<rparr>"] miss upd
    merge_never_overwrites [OF look', of server 1 "\<lparr>updated_count = 0, skipped_count = 0\<rparr>"] miss' upd'
  show ?thesis by simp
qed

text \<open>
  C5. For an author that needs an update and whose search comes back with an empty list
  of results: the lookup issues the search request, logs a warning and returns \<open>None\<close>;
  the loop body for that author adds nothing but the lookup's events and the delay (so
  no write request), and leaves both counters as they were, in dry-run and in live mode.
\<close>

theorem no_search_results:
  assumes "needs_update a"
    and "author_get_default a ''name'' ''Unknown'' = n"
    and "wiki_reply w (t @ [Log INFO (Processing (fstr n)),
                            Request (Requests_Get search_url (search_params (fstr n)))]) =
           Response sc (Some (JObj kvs))"
    and "map_of kvs ''query'' = Some (JObj q)"
    and "map_of q ''search'' = Some (JArr [])"
  shows "search_wikipedia w n (t @ [Log INFO (Processing (fstr n))]) =
           (None, t @ [Log INFO (Processing (fstr n)),
                       Request (Requests_Get search_url (search_params (fstr n))),
                       Log WARNING (No_Wikipedia_Page (fstr n))])
       \<and> process_author w self dry_run delay a (c, t) =
           (c, t @ [Log INFO (Processing (fstr n)),
                    Request (Requests_Get search_url (search_params (fstr n))),
                    Log WARNING (No_Wikipedia_Page (fstr n)),
                    Sleep delay])"
proof -
  have s: "search_wikipedia w n (t @ [Log INFO (Processing (fstr n))]) =
           (None, t @ [Log INFO (Processing (fstr n)),
                       Request (Requests_Get search_url (search_params (fstr n))),
                       Log WARNING (No_Wikipedia_Page (fstr n))])"
    using assms(3-5) by (simp add: search_wikipedia_def search_hits_def Let_def)
  show ?thesis
    using assms(1) s by (simp add: process_author_def assms(2) Let_def)
qed

theorem no_search_results_witness:
  "needs_update jane
   \<and> wiki_reply world_no_hits ([] @ [Log INFO (Processing ''Jane Doe''),
        Request (Requests_Get search_url (search_params ''Jane Doe''))]) =
       Response 200 (Some (JObj [(''query'', JObj [(''search'', JArr [])])]))
   \<and> process_author world_no_hits server False 1 jane (\<lparr>updated_count = 0, skipped_count = 0\<rparr>, []) =
       (\<lparr>updated_count = 0, skipped_count = 0\<rparr>,
        [Log INFO (Processing ''Jane Doe''),
         Request (Requests_Get search_url (search_params ''Jane Doe'')),
         Log WARNING (No_Wikipedia_Page ''Jane Doe''),
         Sleep 1])"
proof -
  have h1: "needs_update jane"
    by (simp add: needs_update_def author_get_def jane_def)
  have h2: "author_get_default jane ''name'' ''Unknown'' = Some ''Jane Doe''"
    by (simp add: author_get_default_def jane_def)
  have h3: "wiki_reply world_no_hits ([] @ [Log INFO (Processing (fstr (Some ''Jane Doe''))),
        Request (Requests_Get search_url (search_params (fstr (Some ''Jane Doe''))))]) =
       Response 200 (Some (JObj [(''query'', JObj [(''search'', JArr [])])]))"
    by (simp add: world_no_hits_def no_hits_def)
  have h4: "map_of [(''query'', JObj [(''search'', JArr [])])] ''query'' = Some (JObj [(''search'', JArr [])])"
    by simp
  have h5: "map_of [(''search'', JArr [])] ''search'' = Some (JArr [])"
    by simp
  from no_search_results [OF h1 h2 h3 h4 h5, of server False 1 "\<lparr>updated_count = 0, skipped_count = 0\<rparr>"]
    h1 h3
  show ?thesis by simp
qed

text \<open>
  C6. When \<^verbatim>\<open>get_all_authors\<close> returns the empty list, the run logs that no authors were
  found and returns at once: no author is counted as updated or as skipped, and the trace
  gains no lookup request and no write request.
\<close>

theorem no_authors:
  assumes "fst (get_all_authors w self t) = []"
  shows "process_authors w self dry_run delay t =
           (None, snd (get_all_authors w self t) @ [Log ERROR No_Authors_Found])
       \<and> updated_total (fst (process_authors w self dry_run delay t)) = 0
       \<and> skipped_total (fst (process_authors w self dry_run delay t)) = 0
       \<and> filter is_lookup (snd (process_authors w self dry_run delay t)) = filter is_lookup t
       \<and> filter is_write (snd (process_authors w self dry_run delay t)) = filter is_write t"
proof -
  have p: "process_authors w self dry_run delay t =
           (None, snd (get_all_authors w self t) @ [Log ERROR No_Authors_Found])"
    using assms by (simp add: process_authors_def split_beta)
  have l: "filter is_lookup (snd (get_all_authors w self t)) = filter is_lookup t"
    by (simp add: get_all_authors_frame)
  have r: "filter is_write (snd (get_all_authors w self t)) = filter is_write t"
    by (simp add: get_all_authors_frame is_write_def)
  show ?thesis
    by (simp add: p l r updated_total_def skipped_total_def is_write_def)
qed

theorem no_authors_witness:
  "fst (get_all_authors world_empty server []) = []
   \<and> process_authors world_empty server False 1 [] =
       (None, [Request (Session_Get ''http://localhost:13378/api/authors''),
               Log INFO (Found_Authors 0), Log ERROR No_Authors_Found])
   \<and> fst (get_all_authors world_down server []) = []"
  using no_authors [of world_empty server "[]" False 1]
  by (simp add: get_all_authors_def raises_for_status_def world_defs Let_def)


text \<open>
  What the loop adds for one author, and what the whole loop adds: one segment per author.
\<close>

lemma process_author_segment:
  "\<exists>c' seg. process_author w self dry_run delay a (c, t) = (c', t @ seg)
     \<and> skipped_count c' = skipped_count c + (if truthy_str (author_get a ''description'') \<and> truthy_str (author_get a ''imagePath'') then 1 else 0)
     \<and> filter is_sleep seg = (if truthy_str (author_get a ''description'') \<and> truthy_str (author_get a ''imagePath'') then [] else [Sleep delay])
     \<and> (if truthy_str (author_get a ''description'') \<and> truthy_str (author_get a ''imagePath'')
         then seg = [Log INFO (Skipping (fstr (author_get_default a ''name'' ''Unknown'')))]
         else (\<exists>es. seg = es @ [Sleep delay] \<and> filter is_sleep es = [] \<and> filter is_lookup es \<noteq> []))"
proof (cases "needs_update a")
  case False
  then have full: "truthy_str (author_get a ''description'') \<and> truthy_str (author_get a ''imagePath'')"
    by (simp add: needs_update_def)
  have "process_author w self dry_run delay a (c, t) =
          (c\<lparr>skipped_count := skipped_count c + 1\<rparr>,
           t @ [Log INFO (Skipping (fstr (author_get_default a ''name'' ''Unknown'')))])"
    using False by (simp add: process_author_def)
  with False full show ?thesis by simp
next
  case need: True
  then have miss: "\<not> (truthy_str (author_get a ''description'') \<and> truthy_str (author_get a ''imagePath''))"
    by (auto simp add: needs_update_def)
  let ?n = "author_get_default a ''name'' ''Unknown''"
  let ?p = "Log INFO (Processing (fstr ?n))"
  let ?t0 = "t @ [?p]"
  obtain found t1 where s: "search_wikipedia w ?n ?t0 = (found, t1)"
    by (cases "search_wikipedia w ?n ?t0")
  obtain es1 where es1: "t1 = ?t0 @ es1" "filter is_sleep es1 = []" "filter is_lookup es1 \<noteq> []"
    using search_wikipedia_extends [of w ?n ?t0] s by auto
  have shape: "\<exists>c' es. process_author w self dry_run delay a (c, t) = (c', t @ es @ [Sleep delay])
      \<and> skipped_count c' = skipped_count c \<and> filter is_sleep es = [] \<and> filter is_lookup es \<noteq> []"
  proof (cases found)
    case None
    have "process_author w self dry_run delay a (c, t) = (c, t1 @ [Sleep delay])"
      using need s None by (simp add: process_author_def Let_def)
    with es1 show ?thesis
      by (intro exI [of _ c] exI [of _ "?p # es1"]) simp
  next
    case (Some wd)
    show ?thesis
    proof (cases dry_run)
      case True
      have "process_author w self dry_run delay a (c, t) =
              (c, t1 @ dry_run_log ?n wd @ [Sleep delay])"
        using need s Some True by (simp add: process_author_def Let_def)
      with es1 show ?thesis
        by (intro exI [of _ c] exI [of _ "?p # es1 @ dry_run_log ?n wd"])
           (simp add: dry_run_log_def)
    next
      case False
      let ?u = "update_author w self (author_get a ''id'') (description_arg a wd) (image_url_arg a wd) t1"
      let ?c = "if fst ?u then c\<lparr>updated_count := updated_count c + 1\<rparr> else c"
      obtain es2 where es2: "snd ?u = t1 @ es2" "filter is_sleep es2 = []"
        using update_author_extends by blast
      have "process_author w self dry_run delay a (c, t) = (?c, snd ?u @ [Sleep delay])"
        using need s Some False by (simp add: process_author_def Let_def split_beta)
      with es1 es2 show ?thesis
        by (intro exI [of _ ?c] exI [of _ "?p # es1 @ es2"]) simp
    qed
  qed
  then obtain c' es where r: "process_author w self dry_run delay a (c, t) = (c', t @ es @ [Sleep delay])"
    "skipped_count c' = skipped_count c" "filter is_sleep es = []" "filter is_lookup es \<noteq> []"
    by blast
  show ?thesis
    using need miss r by (intro exI [of _ c'] exI [of _ "es @ [Sleep delay]"]) auto
qed

lemma process_loop_segments:
  "\<exists>c' segs. process_loop w self dry_run delay authors (c, t) = (c', t @ concat segs)
     \<and> skipped_count c' = skipped_count c + length (filter (\<lambda>a. truthy_str (author_get a ''description'') \<and> truthy_str (author_get a ''imagePath'')) authors)
     \<and> length (filter is_sleep (concat segs)) = length (filter (\<lambda>a. \<not> (truthy_str (author_get a ''description'') \<and> truthy_str (author_get a ''imagePath''))) authors)
     \<and> list_all2 (\<lambda>a seg.
          if truthy_str (author_get a ''description'') \<and> truthy_str (author_get a ''imagePath'')
          then seg = [Log INFO (Skipping (fstr (author_get_default a ''name'' ''Unknown'')))]
          else (\<exists>es. seg = es @ [Sleep delay] \<and> filter is_sleep es = [] \<and> filter is_lookup es \<noteq> []))
        authors segs"
proof (induction authors arbitrary: c t)
  case Nil
  show ?case by (intro exI [of _ c] exI [of _ "[]"]) simp
next
  case (Cons a authors)
  obtain c1 seg where a: "process_author w self dry_run delay a (c, t) = (c1, t @ seg)"
    "skipped_count c1 = skipped_count c + (if truthy_str (author_get a ''description'') \<and> truthy_str (author_get a ''imagePath'') then 1 else 0)"
    "filter is_sleep seg = (if truthy_str (author_get a ''description'') \<and> truthy_str (author_get a ''imagePath'') then [] else [Sleep delay])"
    "if truthy_str (author_get a ''description'') \<and> truthy_str (author_get a ''imagePath'')
         then seg = [Log INFO (Skipping (fstr (author_get_default a ''name'' ''Unknown'')))]
         else (\<exists>es. seg = es @ [Sleep delay] \<and> filter is_sleep es = [] \<and> filter is_lookup es \<noteq> [])"
    using process_author_segment [of w self dry_run delay a c t] by blast
  obtain c' segs where r: "process_loop w self dry_run delay authors (c1, t @ seg) = (c', (t @ seg) @ concat segs)"
    "skipped_count c' = skipped_count c1 + length (filter (\<lambda>a. truthy_str (author_get a ''description'') \<and> truthy_str (author_get a ''imagePath'')) authors)"
    "length (filter is_sleep (concat segs)) = length (filter (\<lambda>a. \<not> (truthy_str (author_get a ''description'') \<and> truthy_str (author_get a ''imagePath''))) authors)"
    "list_all2 (\<lambda>a seg.
          if truthy_str (author_get a ''description'') \<and> truthy_str (author_get a ''imagePath'')
          then seg = [Log INFO (Skipping (fstr (author_get_default a ''name'' ''Unknown'')))]
          else (\<exists>es. seg = es @ [Sleep delay] \<and> filter is_sleep es = [] \<and> filter is_lookup es \<noteq> []))
        authors segs"
    using Cons.IH [of c1 "t @ seg"] by blast
  show ?case
  proof (intro exI [of _ c'] exI [of _ "seg # segs"] conjI)
    show "process_loop w self dry_run delay (a # authors) (c, t) = (c', t @ concat (seg # segs))"
      using a(1) r(1) by simp
    show "skipped_count c' = skipped_count c + length (filter (\<lambda>a. truthy_str (author_get a ''description'') \<and> truthy_str (author_get a ''imagePath'')) (a # authors))"
      using a(2) r(2) by simp
    show "length (filter is_sleep (concat (seg # segs))) = length (filter (\<lambda>a. \<not> (truthy_str (author_get a ''description'') \<and> truthy_str (author_get a ''imagePath''))) (a # authors))"
      using a(3) r(3) by simp
    show "list_all2 (\<lambda>a seg.
          if truthy_str (author_get a ''description'') \<and> truthy_str (author_get a ''imagePath'')
          then seg = [Log INFO (Skipping (fstr (author_get_default a ''name'' ''Unknown'')))]
          else (\<exists>es. seg = es @ [Sleep delay] \<and> filter is_sleep es = [] \<and> filter is_lookup es \<noteq> []))
        (a # authors) (seg # segs)"
      using a(4) r(4) by simp
  qed
qed


text \<open>
  C7. A run over a non-empty list of authors: its trace is the listing, then one segment
  of events per author in the order of the list, then the summary. The segment of an
  author with a non-empty description and a non-empty image path is the one log line of
  the skip (no request, no delay), and the skipped counter ends as the number of such
  authors. The segment of every other author contains a lookup request and ends with
  the delay, which is its only delay, whatever the lookup and the update came to; so the
  run sleeps once per author looked up.
\<close>

theorem run_skips_and_delays:
  assumes "get_all_authors w self t = (authors, t1)" and "authors \<noteq> []"
  shows "\<exists>c segs.
      process_authors w self dry_run delay t =
        (Some c, t1 @ concat segs @ [Log INFO Processing_Complete,
                                     Log INFO (Authors_Updated (updated_count c)),
                                     Log INFO (Authors_Skipped (skipped_count c))])
    \<and> skipped_count c = length (filter (\<lambda>a. truthy_str (author_get a ''description'') \<and> truthy_str (author_get a ''imagePath'')) authors)
    \<and> list_all2 (\<lambda>a seg.
          if truthy_str (author_get a ''description'') \<and> truthy_str (author_get a ''imagePath'')
          then seg = [Log INFO (Skipping (fstr (author_get_default a ''name'' ''Unknown'')))]
          else (\<exists>es. seg = es @ [Sleep delay] \<and> filter is_sleep es = [] \<and> filter is_lookup es \<noteq> []))
        authors segs
    \<and> length (filter is_sleep (concat segs)) = length (filter (\<lambda>a. \<not> (truthy_str (author_get a ''description'') \<and> truthy_str (author_get a ''imagePath''))) authors)
    \<and> length (filter is_sleep (snd (process_authors w self dry_run delay t))) =
        length (filter is_sleep t) + length (filter (\<lambda>a. \<not> (truthy_str (author_get a ''description'') \<and> truthy_str (author_get a ''imagePath''))) authors)"
proof -
  let ?c0 = "\<lparr>updated_count = 0, skipped_count = 0\<rparr>"
  obtain c segs where l: "process_loop w self dry_run delay authors (?c0, t1) = (c, t1 @ concat segs)"
    and k: "skipped_count c = skipped_count ?c0 + length (filter (\<lambda>a. truthy_str (author_get a ''description'') \<and> truthy_str (author_get a ''imagePath'')) authors)"
    and z: "length (filter is_sleep (concat segs)) = length (filter (\<lambda>a. \<not> (truthy_str (author_get a ''description'') \<and> truthy_str (author_get a ''imagePath''))) authors)"
    and g: "list_all2 (\<lambda>a seg.
          if truthy_str (author_get a ''description'') \<and> truthy_str (author_get a ''imagePath'')
          then seg = [Log INFO (Skipping (fstr (author_get_default a ''name'' ''Unknown'')))]
          else (\<exists>es. seg = es @ [Sleep delay] \<and> filter is_sleep es = [] \<and> filter is_lookup es \<noteq> []))
        authors segs"
    using process_loop_segments [of w self dry_run delay authors ?c0 t1] by blast
  have p: "process_authors w self dry_run delay t =
        (Some c, t1 @ concat segs @ [Log INFO Processing_Complete,
                                     Log INFO (Authors_Updated (updated_count c)),
                                     Log INFO (Authors_Skipped (skipped_count c))])"
    using assms l by (simp add: process_authors_def)
  have k': "skipped_count c = length (filter (\<lambda>a. truthy_str (author_get a ''description'') \<and> truthy_str (author_get a ''imagePath'')) authors)"
    using k by simp
  note z' = z
  have "t1 = snd (get_all_authors w self t)"
    using assms(1) by simp
  then have f: "filter is_sleep t1 = filter is_sleep t"
    by (simp add: get_all_authors_frame)
  have s: "length (filter is_sleep (snd (process_authors w self dry_run delay t))) =
        length (filter is_sleep t) + length (filter (\<lambda>a. \<not> (truthy_str (author_get a ''description'') \<and> truthy_str (author_get a ''imagePath''))) authors)"
    using z' f by (simp add: p)
  from p k' g z' s show ?thesis
    by blast
qed

theorem run_skips_and_delays_witness:
  "get_all_authors world_ok server [] =
     ([jane, kim], [Request (Session_Get ''http://localhost:13378/api/authors''),
                    Log INFO (Found_Authors 2)])
   \<and> [jane, kim] \<noteq> []
   \<and> fst (process_authors world_ok server False 1 []) =
       Some \<lparr>updated_count = 1, skipped_count = 1\<rparr>
   \<and> filter is_sleep (snd (process_authors world_ok server False 1 [])) = [Sleep 1]
   \<and> length (filter is_sleep (snd (process_authors world_ok server False 1 []))) =
       length (filter is_sleep []) + length (filter (\<lambda>a. \<not> (truthy_str (author_get a ''description'') \<and> truthy_str (author_get a ''imagePath''))) [jane, kim])"
proof -
  have h1: "get_all_authors world_ok server [] =
     ([jane, kim], [Request (Session_Get ''http://localhost:13378/api/authors''),
                    Log INFO (Found_Authors 2)])"
    by (simp add: get_all_authors_def raises_for_status_def world_defs Let_def)
  have h2: "[jane, kim] \<noteq> []"
    by simp
  have run: "process_authors world_ok server False 1 [] =
      (Some \<lparr>updated_count = 1, skipped_count = 1\<rparr>,
       [Request (Session_Get ''http://localhost:13378/api/authors''),
        Log INFO (Found_Authors 2),
        Log INFO (Processing ''Jane Doe''),
        Request (Requests_Get search_url (search_params ''Jane Doe'')),
        Request (Requests_Get search_url (page_params (JStr ''Jane Doe''))),
        Log INFO (Found_Wikipedia_Data ''Jane Doe''),
        patch_request server (Some ''a1'') (JStr ''Jane Doe is a writer.''),
        Log INFO (Updated_Description ''a1''),
        Sleep 1,
        Log INFO (Skipping ''Kim Lee''),
        Log INFO Processing_Complete,
        Log INFO (Authors_Updated 1),
        Log INFO (Authors_Skipped 1)])"
    by (simp add: process_authors_def get_all_authors_def process_author_def search_wikipedia_def
        update_author_def description_arg_def image_url_arg_def patch_request_def
        needs_update_def author_get_def author_get_default_def search_hits_def top_title_def
        first_page_def build_result_def strip_def py_isspace_def replace_char_def
        search_url_def search_params_def page_params_def raises_for_status_def world_defs Let_def)
  from run_skips_and_delays [OF h1 h2, of False 1]
  have s: "length (filter is_sleep (snd (process_authors world_ok server False 1 []))) =
       length (filter is_sleep []) + length (filter (\<lambda>a. \<not> (truthy_str (author_get a ''description'') \<and> truthy_str (author_get a ''imagePath''))) [jane, kim])"
    by (elim exE conjE)
  have r1: "fst (process_authors world_ok server False 1 []) =
       Some \<lparr>updated_count = 1, skipped_count = 1\<rparr>"
    using run by simp
  have r2: "filter is_sleep (snd (process_authors world_ok server False 1 [])) = [Sleep 1]"
    using run by (simp add: patch_request_def)
  from h1 h2 r1 r2 s show ?thesis
    by (intro conjI)
qed

text \<open>
  The loop body, in live mode, for an author that has a description and no image path,
  when the lookup result has no image URL: \<^verbatim>\<open>update_author\<close> gets two empty arguments,
  sends nothing and returns \<open>True\<close>, and the updated counter is incremented.
\<close>

lemma process_author_no_write:
  assumes "truthy_str (author_get a ''description'')"
    and "\<not> truthy_str (author_get a ''imagePath'')"
    and "search_wikipedia w (author_get_default a ''name'' ''Unknown'')
           (t @ [Log INFO (Processing (fstr (author_get_default a ''name'' ''Unknown'')))]) = (Some wd, t1)"
    and "\<not> truthy (image_url wd)"
  shows "\<not> truthy (description_arg a wd) \<and> \<not> truthy (image_url_arg a wd)
       \<and> update_author w self (author_get a ''id'') (description_arg a wd) (image_url_arg a wd) t1 = (True, t1)
       \<and> process_author w self False delay a (c, t) =
           (c\<lparr>updated_count := updated_count c + 1\<rparr>, t1 @ [Sleep delay])
       \<and> filter is_write t1 = filter is_write t"
proof -
  have args: "\<not> truthy (description_arg a wd)" "\<not> truthy (image_url_arg a wd)"
    using assms(1,2,4) by (simp_all add: description_arg_def image_url_arg_def)
  have upd: "update_author w self (author_get a ''id'') (description_arg a wd) (image_url_arg a wd) t1 = (True, t1)"
    using args by (rule update_author_nothing)
  have run: "process_author w self False delay a (c, t) =
           (c\<lparr>updated_count := updated_count c + 1\<rparr>, t1 @ [Sleep delay])"
    using assms(2,3) upd by (simp add: process_author_def needs_update_def Let_def)
  have "t1 = snd (search_wikipedia w (author_get_default a ''name'' ''Unknown'')
           (t @ [Log INFO (Processing (fstr (author_get_default a ''name'' ''Unknown'')))]))"
    using assms(3) by simp
  then have "filter is_write t1 = filter is_write t"
    by (simp add: search_wikipedia_frame is_write_def)
  with args upd run show ?thesis
    by simp
qed

text \<open>
  C9. A live run over a list with one author that has a description and no image path,
  whose lookup returns a result without an image URL: both arguments passed to
  \<^verbatim>\<open>update_author\<close> are empty, the call issues no request and returns \<open>True\<close>, the
  run ends with the updated counter at 1, and its trace gains no write request. Such a
  run exists, as the concrete run after the theorem shows.
\<close>

theorem run_updated_without_write:
  assumes "get_all_authors w self t = ([a], t1)"
    and "truthy_str (author_get a ''description'')"
    and "\<not> truthy_str (author_get a ''imagePath'')"
    and "search_wikipedia w (author_get_default a ''name'' ''Unknown'')
           (t1 @ [Log INFO (Processing (fstr (author_get_default a ''name'' ''Unknown'')))]) = (Some wd, t2)"
    and "\<not> truthy (image_url wd)"
  shows "\<not> truthy (description_arg a wd) \<and> \<not> truthy (image_url_arg a wd)
       \<and> update_author w self (author_get a ''id'') (description_arg a wd) (image_url_arg a wd) t2 = (True, t2)
       \<and> process_authors w self False delay t =
           (Some \<lparr>updated_count = 1, skipped_count = 0\<rparr>,
            t2 @ [Sleep delay, Log INFO Processing_Complete,
                  Log INFO (Authors_Updated 1), Log INFO (Authors_Skipped 0)])
       \<and> updated_total (fst (process_authors w self False delay t)) = 1
       \<and> filter is_write (snd (process_authors w self False delay t)) = filter is_write t"
proof -
  let ?c0 = "\<lparr>updated_count = 0, skipped_count = 0\<rparr>"
  note one = process_author_no_write [OF assms(2-5), of self delay ?c0]
  have "t1 = snd (get_all_authors w self t)"
    using assms(1) by simp
  then have f: "filter is_write t1 = filter is_write t"
    by (simp add: get_all_authors_frame is_write_def)
  have run: "process_authors w self False delay t =
           (Some \<lparr>updated_count = 1, skipped_count = 0\<rparr>,
            t2 @ [Sleep delay, Log INFO Processing_Complete,
                  Log INFO (Authors_Updated 1), Log INFO (Authors_Skipped 0)])"
    using assms(1) one by (simp add: process_authors_def)
  from one f run show ?thesis
    by (simp add: updated_total_def is_write_def)
qed

lemma lookup_ann_run:
  "search_wikipedia world_ann (Some ''Ann Roe'')
     [Request (Session_Get ''http://localhost:13378/api/authors''), Log INFO (Found_Authors 1),
      Log INFO (Processing ''Ann Roe'')] =
     (Some \<lparr>description = ''Jane Doe is a writer.'', image_url = JNull,
            source = ''https://en.wikipedia.org/wiki/Jane_Doe''\<rparr>,
      [Request (Session_Get ''http://localhost:13378/api/authors''), Log INFO (Found_Authors 1),
       Log INFO (Processing ''Ann Roe''),
       Request (Requests_Get search_url (search_params ''Ann Roe'')),
       Request (Requests_Get search_url (page_params (JStr ''Jane Doe''))),
       Log INFO (Found_Wikipedia_Data ''Ann Roe'')])"
  by (simp add: search_wikipedia_def search_hits_def top_title_def first_page_def build_result_def
        strip_def py_isspace_def replace_char_def search_params_def page_params_def
        world_ann_def world_defs Let_def)

theorem run_updated_without_write_witness:
  "get_all_authors world_ann server [] =
     ([ann], [Request (Session_Get ''http://localhost:13378/api/authors''), Log INFO (Found_Authors 1)])
   \<and> truthy_str (author_get ann ''description'') \<and> \<not> truthy_str (author_get ann ''imagePath'')
   \<and> process_authors world_ann server False 1 [] =
       (Some \<lparr>updated_count = 1, skipped_count = 0\<rparr>,
        [Request (Session_Get ''http://localhost:13378/api/authors''), Log INFO (Found_Authors 1),
         Log INFO (Processing ''Ann Roe''),
         Request (Requests_Get search_url (search_params ''Ann Roe'')),
         Request (Requests_Get search_url (page_params (JStr ''Jane Doe''))),
         Log INFO (Found_Wikipedia_Data ''Ann Roe''),
         Sleep 1, Log INFO Processing_Complete,
         Log INFO (Authors_Updated 1), Log INFO (Authors_Skipped 0)])
   \<and> filter is_write (snd (process_authors world_ann server False 1 [])) = []"
proof -
  have h1: "get_all_authors world_ann server [] =
     ([ann], [Request (Session_Get ''http://localhost:13378/api/authors''), Log INFO (Found_Authors 1)])"
    by (simp add: get_all_authors_def raises_for_status_def world_ann_def world_defs Let_def)
  have h2: "truthy_str (author_get ann ''description'')"
    by (simp add: author_get_def ann_def)
  have h3: "\<not> truthy_str (author_get ann ''imagePath'')"
    by (simp add: author_get_def ann_def)
  have name: "author_get_default ann ''name'' ''Unknown'' = Some ''Ann Roe''"
    by (simp add: author_get_default_def ann_def)
  have h4: "search_wikipedia world_ann (author_get_default ann ''name'' ''Unknown'')
     ([Request (Session_Get ''http://localhost:13378/api/authors''), Log INFO (Found_Authors 1)]
      @ [Log INFO (Processing (fstr (author_get_default ann ''name'' ''Unknown'')))]) =
     (Some \<lparr>description = ''Jane Doe is a writer.'', image_url = JNull,
            source = ''https://en.wikipedia.org/wiki/Jane_Doe''\<rparr>,
      [Request (Session_Get ''http://localhost:13378/api/authors''), Log INFO (Found_Authors 1),
       Log INFO (Processing ''Ann Roe''),
       Request (Requests_Get search_url (search_params ''Ann Roe'')),
       Request (Requests_Get search_url (page_params (JStr ''Jane Doe''))),
       Log INFO (Found_Wikipedia_Data ''Ann Roe'')])"
    using lookup_ann_run by (simp add: name)
  have h5: "\<not> truthy (image_url \<lparr>description = ''Jane Doe is a writer.'', image_url = JNull,
            source = ''https://en.wikipedia.org/wiki/Jane_Doe''\<rparr>)"
    by simp
  from run_updated_without_write [OF h1 h2 h3 h4 h5, of 1] h1 h2 h3
  show ?thesis by (simp add: is_write_def)
qed

section \<open>The encyclopedia lookup\<close>










end
